theory Spec2Isabelle
  imports Main "HOL-Library.Char_ord" "HOL-Library.List_Lexorder"
begin

section \<open>The editor, the clipboard and the engine, as extension.ts sees them\<close>

text \<open>
  extension.ts is glue between collaborators it imports: the editor API (vscode), the
  clipboard (copy-paste), the type-inference engine (quicktype) and the built-in
  \<^verbatim>\<open>JSON.parse\<close>. None of them is defined in the repository. Their answers during one
  run of a command are the fields of the record \<open>env\<close>; what the run does to them is the
  list of events it returns.
\<close>

type_synonym js_error = string

text \<open>A target language of the engine; the extension reads its \<^verbatim>\<open>displayName\<close> only.\<close>

record language =
  displayName :: string

text \<open>
  The three type sources of the engine that \<^verbatim>\<open>pasteAsTypes\<close> builds; the constructor
  is the \<^verbatim>\<open>kind\<close> tag of the object. The fourth constructor is not a type source of the
  engine: it is the value that indexing the object literal of sources gives for a name
  the literal inherits from \<^verbatim>\<open>Object.prototype\<close>, which the cast to \<^verbatim>\<open>TypeSource\<close> lets
  through.
\<close>

datatype type_source =
    JSONTypeSource string "string list"
  | SchemaTypeSource string string
  | TypeScriptTypeSource "(string \<times> string) list"
  | ObjectPrototypeMember string

text \<open>The argument object of the call \<^verbatim>\<open>quicktype({...})\<close>.\<close>

record quicktype_options =
  lang :: string
  sources :: "type_source list"
  leadingComments :: "string list"
  rendererOptions :: "(string \<times> string) list"
  indentation :: string

text \<open>
  What awaiting \<^verbatim>\<open>quicktype(...)\<close> does: the promise resolves with a render result (its
  \<^verbatim>\<open>lines\<close>), or it rejects and the \<^verbatim>\<open>catch\<close> receives the value, or the engine throws
  outside the promise, which the comment in the \<^verbatim>\<open>catch\<close> block calls an uncatchable
  exception.
\<close>

datatype quicktype_result =
    Resolves "string list"
  | Rejects js_error
  | Uncatchable

text \<open>A position is the offset of the position in the text of the document.\<close>

type_synonym position = nat

text \<open>\<^verbatim>\<open>new Range(start, end)\<close>\<close>

datatype range = NewRange position position

record selection =
  start :: position
  end_pos :: position
  isEmpty :: bool

record text_document =
  languageId :: string

record text_editor_options =
  insertSpaces :: bool
  tabSize :: nat

text \<open>The editor as the run reads it: \<^verbatim>\<open>options\<close> and \<^verbatim>\<open>document\<close> when the command
  starts, \<^verbatim>\<open>selection\<close> when the edit is made.\<close>

record text_editor =
  document :: text_document
  options :: text_editor_options
  selection :: selection

text \<open>The two operations of the edit builder that the callback of \<^verbatim>\<open>editor.edit\<close> uses.\<close>

datatype edit_op =
    Insert position string
  | Replace range string

datatype event =
    ShowQuickPick "string list"
  | Paste
  | ShowErrorMessage string
  | ShowInputBox string
  | SendEvent string string
  | Quicktype quicktype_options
  | EditorEdit edit_op

record env =
  languageNamed :: "string \<Rightarrow> language option"
  languages :: "language list"
  showQuickPick :: "string list \<Rightarrow> string option"
  showInputBox :: "string \<Rightarrow> string option"
  pasteCallback :: "js_error + string"
  JSON_parse :: "string \<Rightarrow> js_error + unit"
  quicktype :: "quicktype_options \<Rightarrow> quicktype_result"

text \<open>How the promise of \<^verbatim>\<open>pasteAsTypes\<close> ends.\<close>

datatype outcome =
    Returned
  | Rejected js_error
  | Faulted

record run =
  events :: "event list"
  outcome :: outcome

record prompt_result =
  cancelled :: bool
  name :: string

section \<open>extension.ts\<close>

text \<open>\<^verbatim>\<open>a || b\<close> where \<^verbatim>\<open>a\<close> is a string or undefined: undefined and the empty string are
  falsy.\<close>

fun js_or :: "string option \<Rightarrow> string \<Rightarrow> string" where
  "js_or None d = d"
| "js_or (Some s) d = (if s = [] then d else s)"

text \<open>\<^verbatim>\<open>lines.join("\n")\<close>\<close>

fun join_lines :: "string list \<Rightarrow> string" where
  "join_lines [] = []"
| "join_lines [l] = l"
| "join_lines (l # ls) = l @ [CHR 0x0A] @ join_lines ls"

text \<open>\<^verbatim>\<open>paste\<close>: the promise fails with \<^verbatim>\<open>err\<close> or passes the content.\<close>

definition paste :: "env \<Rightarrow> js_error + string" where
  "paste env = pasteCallback env"

definition jsonIsValid :: "env \<Rightarrow> string \<Rightarrow> bool" where
  "jsonIsValid env json = (case JSON_parse env json of Inl e \<Rightarrow> False | Inr v \<Rightarrow> True)"

definition promptTopLevelName :: "env \<Rightarrow> prompt_result \<times> event list" where
  "promptTopLevelName env =
     (let topLevelName = showInputBox env ''Top-level type name?''
      in (\<lparr>cancelled = (topLevelName = None), name = js_or topLevelName ''TopLevel''\<rparr>,
          [ShowInputBox ''Top-level type name?'']))"

definition getTargetLanguage :: "env \<Rightarrow> text_editor \<Rightarrow> prompt_result \<times> event list" where
  "getTargetLanguage env editor =
     (let documentLanguage = languageId (document editor);
          currentLanguage = languageNamed env documentLanguage
      in case currentLanguage of
           Some l \<Rightarrow> (\<lparr>cancelled = False, name = displayName l\<rparr>, [])
         | None \<Rightarrow>
             (let languageChoices = sort (map displayName (languages env));
                  chosenName = showQuickPick env languageChoices
              in (\<lparr>cancelled = (chosenName = None), name = js_or chosenName ''types''\<rparr>,
                  [ShowQuickPick languageChoices])))"

text \<open>The object literal indexed by \<^verbatim>\<open>kind\<close>: its three own keys and their values.\<close>

definition source_table :: "string \<Rightarrow> string \<Rightarrow> (string \<times> type_source) list" where
  "source_table topLevelName content =
     [(''json'', JSONTypeSource topLevelName [content]),
      (''schema'', SchemaTypeSource topLevelName content),
      (''typescript'', TypeScriptTypeSource [(topLevelName @ ''.ts'', content)])]"

text \<open>
  \<^verbatim>\<open>object[key]\<close> on an object literal: the value of the literal's own key, else the
  member of that name that every object inherits from \<^verbatim>\<open>Object.prototype\<close>, else
  undefined. The names are those of the properties of \<^verbatim>\<open>Object.prototype\<close> in ECMAScript.
\<close>

definition Object_prototype :: "string list" where
  "Object_prototype =
     [''constructor'', ''__defineGetter__'', ''__defineSetter__'', ''hasOwnProperty'',
      ''__lookupGetter__'', ''__lookupSetter__'', ''isPrototypeOf'', ''propertyIsEnumerable'',
      ''toString'', ''valueOf'', ''__proto__'', ''toLocaleString'']"

definition js_lookup :: "(string \<times> type_source) list \<Rightarrow> string \<Rightarrow> type_source option" where
  "js_lookup object key =
     (case map_of object key of
        Some v \<Rightarrow> Some v
      | None \<Rightarrow> if key \<in> set Object_prototype then Some (ObjectPrototypeMember key) else None)"

text \<open>The callback given to \<^verbatim>\<open>editor.edit\<close>.\<close>

definition selection_edit :: "selection \<Rightarrow> string \<Rightarrow> edit_op" where
  "selection_edit sel text =
     (if isEmpty sel then Insert (start sel) text
      else Replace (NewRange (start sel) (end_pos sel)) text)"

text \<open>
  Modelled from the spec: \<^verbatim>\<open>analytics.sendEvent\<close> of \<^verbatim>\<open>./analytics\<close>, a module of the
  repository that is not among the sources. The spec names telemetry an external
  collaborator outside the core; the call is recorded as the event \<open>SendEvent\<close> and
  returns.

  \<^verbatim>\<open>kind\<close> is the string the command passes; its declared type admits
  \<^verbatim>\<open>"json"\<close>, \<^verbatim>\<open>"schema"\<close> and \<^verbatim>\<open>"typescript"\<close>, and the function still tests at run time
  whether the lookup in the object literal found a source. For a string that names a
  member of \<^verbatim>\<open>Object.prototype\<close> the lookup finds that member, and the run goes on with it
  as the source.
\<close>

definition pasteAsTypes :: "env \<Rightarrow> text_editor \<Rightarrow> string \<Rightarrow> bool \<Rightarrow> run" where
  "pasteAsTypes env editor kind justTypes =
     (let indentation =
            (if insertSpaces (options editor)
             then replicate (tabSize (options editor)) CHR '' ''
             else [CHR 0x09]);
          (language, ev1) = getTargetLanguage env editor
      in if cancelled language then \<lparr>events = ev1, outcome = Returned\<rparr>
         else case paste env of
           Inl err \<Rightarrow> \<lparr>events = ev1 @ [Paste], outcome = Rejected err\<rparr>
         | Inr content \<Rightarrow>
             if kind \<noteq> ''typescript'' \<and> \<not> jsonIsValid env content
             then \<lparr>events = ev1 @ [Paste,
                      ShowErrorMessage ''Clipboard does not contain valid JSON.''],
                    outcome = Returned\<rparr>
             else
               (let rendererOptions =
                      (if justTypes
                       then [(''just-types'', ''true''), (''features'', ''just-types'')]
                       else []);
                    (topLevelName, ev2) = promptTopLevelName env
                in if cancelled topLevelName
                   then \<lparr>events = ev1 @ [Paste] @ ev2, outcome = Returned\<rparr>
                   else case js_lookup (source_table (name topLevelName) content) kind of
                     None \<Rightarrow>
                       \<lparr>events = ev1 @ [Paste] @ ev2 @
                          [ShowErrorMessage (''Unrecognized input format: '' @ kind)],
                        outcome = Returned\<rparr>
                   | Some source \<Rightarrow>
                       (let call = \<lparr>lang = name language,
                                    sources = [source],
                                    leadingComments = [''Generated by https://quicktype.io''],
                                    rendererOptions = rendererOptions,
                                    indentation = indentation\<rparr>;
                            ev3 = ev1 @ [Paste] @ ev2 @
                                  [SendEvent (''paste '' @ kind) (name language),
                                   Quicktype call]
                        in case quicktype env call of
                             Uncatchable \<Rightarrow> \<lparr>events = ev3, outcome = Faulted\<rparr>
                           | Rejects e \<Rightarrow>
                               \<lparr>events = ev3 @ [ShowErrorMessage e], outcome = Returned\<rparr>
                           | Resolves lines \<Rightarrow>
                               (let text = join_lines lines
                                in \<lparr>events = ev3 @
                                      [EditorEdit (selection_edit (selection editor) text)],
                                    outcome = Returned\<rparr>))))"

section \<open>What a run did\<close>

fun edit_of :: "event \<Rightarrow> edit_op list" where
  "edit_of (EditorEdit op) = [op]"
| "edit_of e = []"

fun call_of :: "event \<Rightarrow> quicktype_options list" where
  "call_of (Quicktype c) = [c]"
| "call_of e = []"

fun message_of :: "event \<Rightarrow> string list" where
  "message_of (ShowErrorMessage m) = [m]"
| "message_of e = []"

text \<open>The operations handed to \<^verbatim>\<open>editor.edit\<close>, the calls of the engine and the error
  messages shown, in the order of the run.\<close>

definition edits :: "run \<Rightarrow> edit_op list" where
  "edits r = concat (map edit_of (events r))"

definition engine_calls :: "run \<Rightarrow> quicktype_options list" where
  "engine_calls r = concat (map call_of (events r))"

definition error_messages :: "run \<Rightarrow> string list" where
  "error_messages r = concat (map message_of (events r))"

text \<open>The argument of \<^verbatim>\<open>quicktype\<close> that \<^verbatim>\<open>pasteAsTypes\<close> builds, as a function of what
  it is built from.\<close>

definition engine_call :: "text_editor \<Rightarrow> bool \<Rightarrow> string \<Rightarrow> type_source \<Rightarrow> quicktype_options" where
  "engine_call editor justTypes languageName source =
     \<lparr>lang = languageName,
      sources = [source],
      leadingComments = [''Generated by https://quicktype.io''],
      rendererOptions =
        (if justTypes then [(''just-types'', ''true''), (''features'', ''just-types'')] else []),
      indentation =
        (if insertSpaces (options editor)
         then replicate (tabSize (options editor)) CHR '' ''
         else [CHR 0x09])\<rparr>"

text \<open>
  The editor's part of an edit, which the extension relies on and does not define: an
  insertion puts the text at the position, a replacement puts it in place of the range,
  whose two positions the editor orders. The document is its text.
\<close>

fun apply_edit :: "edit_op \<Rightarrow> string \<Rightarrow> string" where
  "apply_edit (Insert p t) doc = take p doc @ t @ drop p doc"
| "apply_edit (Replace (NewRange a b) t) doc = take (min a b) doc @ t @ drop (max a b) doc"

definition document_after :: "run \<Rightarrow> string \<Rightarrow> string" where
  "document_after r doc = fold apply_edit (edits r) doc"

text \<open>The supported languages are the engine's \<^verbatim>\<open>languages\<close>, known to the extension by
  their display names.\<close>

definition supported :: "env \<Rightarrow> string \<Rightarrow> bool" where
  "supported env n = (n \<in> set (map displayName (languages env)))"

section \<open>Example editors and collaborators\<close>

definition typescript_language :: language where
  "typescript_language = \<lparr>displayName = ''TypeScript''\<rparr>"

text \<open>An editor on a TypeScript file, indenting with two spaces, with three characters
  selected.\<close>

definition example_editor :: text_editor where
  "example_editor =
     \<lparr>document = \<lparr>languageId = ''typescript''\<rparr>,
      options = \<lparr>insertSpaces = True, tabSize = 2\<rparr>,
      selection = \<lparr>start = 2, end_pos = 5, isEmpty = False\<rparr>\<rparr>"

text \<open>An editor on a plain text file, indenting with tabs, with an empty selection.\<close>

definition plaintext_editor :: text_editor where
  "plaintext_editor =
     \<lparr>document = \<lparr>languageId = ''plaintext''\<rparr>,
      options = \<lparr>insertSpaces = False, tabSize = 4\<rparr>,
      selection = \<lparr>start = 3, end_pos = 3, isEmpty = True\<rparr>\<rparr>"

text \<open>The clipboard holds a JSON array, the user dismisses the language list and
  submits an empty name, the engine renders two lines.\<close>

definition example_env :: env where
  "example_env =
     \<lparr>languageNamed = (\<lambda>i. if i = ''typescript'' then Some typescript_language else None),
      languages = [typescript_language],
      showQuickPick = (\<lambda>choices. None),
      showInputBox = (\<lambda>prompt. Some []),
      pasteCallback = Inr ''[1, 2]'',
      JSON_parse = (\<lambda>json. if json = ''[1, 2]'' then Inr () else Inl ''SyntaxError''),
      quicktype = (\<lambda>call. Resolves [''export type TopLevel = number[];'', ''// end''])\<rparr>"

text \<open>The clipboard holds text that \<^verbatim>\<open>JSON.parse\<close> rejects.\<close>

definition invalid_clipboard_env :: env where
  "invalid_clipboard_env = example_env\<lparr>pasteCallback := Inr ''[1, 2''\<rparr>"

text \<open>The engine rejects every call.\<close>

definition rejecting_env :: env where
  "rejecting_env = example_env\<lparr>quicktype := (\<lambda>call. Rejects ''cannot render'')\<rparr>"

text \<open>The user picks the first language of the list.\<close>

definition picking_env :: env where
  "picking_env =
     example_env\<lparr>showQuickPick := (\<lambda>choices. case choices of [] \<Rightarrow> None | c # cs \<Rightarrow> Some c)\<rparr>"

text \<open>The clipboard holds text that is neither JSON nor TypeScript, and the engine
  rejects it.\<close>

definition garbage_env :: env where
  "garbage_env =
     example_env\<lparr>pasteCallback := Inr ''interface {'',
                 quicktype := (\<lambda>call. Rejects ''syntax error'')\<rparr>"

section \<open>The paths through \<^verbatim>\<open>pasteAsTypes\<close>\<close>

lemma getTargetLanguage_events:
  "snd (getTargetLanguage env editor) = [] \<or>
   snd (getTargetLanguage env editor) = [ShowQuickPick (sort (map displayName (languages env)))]"
  by (simp add: getTargetLanguage_def Let_def split: option.splits)

lemma getTargetLanguage_cancelled_events:
  "cancelled (fst (getTargetLanguage env editor)) \<Longrightarrow>
   snd (getTargetLanguage env editor) = [ShowQuickPick (sort (map displayName (languages env)))]"
  by (simp add: getTargetLanguage_def Let_def split: option.splits)

lemma ev1_projections:
  "concat (map edit_of (snd (getTargetLanguage env editor))) = []"
  "concat (map call_of (snd (getTargetLanguage env editor))) = []"
  "concat (map message_of (snd (getTargetLanguage env editor))) = []"
  "Paste \<notin> set (snd (getTargetLanguage env editor))"
  using getTargetLanguage_events [of env editor] by auto

lemma promptTopLevelName_simps:
  "fst (promptTopLevelName env) =
     \<lparr>cancelled = (showInputBox env ''Top-level type name?'' = None),
      name = js_or (showInputBox env ''Top-level type name?'') ''TopLevel''\<rparr>"
  "snd (promptTopLevelName env) = [ShowInputBox ''Top-level type name?'']"
  by (simp_all add: promptTopLevelName_def Let_def)

lemma source_table_None:
  "map_of (source_table n c) kind = None \<longleftrightarrow>
     kind \<noteq> ''json'' \<and> kind \<noteq> ''schema'' \<and> kind \<noteq> ''typescript''"
  by (simp add: source_table_def)

lemma js_lookup_own:
  "map_of object key = Some v \<Longrightarrow> js_lookup object key = Some v"
  by (simp add: js_lookup_def)

lemma js_lookup_None:
  "js_lookup (source_table n c) kind = None \<longleftrightarrow>
     kind \<noteq> ''json'' \<and> kind \<noteq> ''schema'' \<and> kind \<noteq> ''typescript'' \<and>
     kind \<notin> set Object_prototype"
  using source_table_None [of n c kind]
  by (auto simp: js_lookup_def split: option.splits)

lemma js_lookup_Some:
  "js_lookup (source_table n c) kind = Some s \<Longrightarrow>
     kind = ''json'' \<or> kind = ''schema'' \<or> kind = ''typescript'' \<or>
     kind \<in> set Object_prototype"
  using js_lookup_None [of n c kind] by auto

lemma join_lines_full:
  "join_lines lines =
     (if lines = [] then []
      else concat (map (\<lambda>l. l @ [CHR 0x0A]) (butlast lines)) @ last lines)"
  by (induction lines rule: join_lines.induct) simp_all

lemma engine_call_sel:
  "lang (engine_call editor justTypes languageName source) = languageName"
  "sources (engine_call editor justTypes languageName source) = [source]"
  "indentation (engine_call editor justTypes languageName source) =
     (if insertSpaces (options editor)
      then replicate (tabSize (options editor)) CHR '' ''
      else [CHR 0x09])"
  by (simp_all add: engine_call_def)

lemma path_language_cancelled:
  assumes "getTargetLanguage env editor = (language, ev1)" "cancelled language"
  shows "pasteAsTypes env editor kind justTypes = \<lparr>events = ev1, outcome = Returned\<rparr>"
  using assms by (simp add: pasteAsTypes_def Let_def)

lemma path_paste_fails:
  assumes "getTargetLanguage env editor = (language, ev1)" "\<not> cancelled language"
    "paste env = Inl err"
  shows "pasteAsTypes env editor kind justTypes =
           \<lparr>events = ev1 @ [Paste], outcome = Rejected err\<rparr>"
  using assms by (simp add: pasteAsTypes_def Let_def)

lemma path_invalid_json:
  assumes "getTargetLanguage env editor = (language, ev1)" "\<not> cancelled language"
    "paste env = Inr content" "kind \<noteq> ''typescript''" "\<not> jsonIsValid env content"
  shows "pasteAsTypes env editor kind justTypes =
           \<lparr>events = ev1 @ [Paste, ShowErrorMessage ''Clipboard does not contain valid JSON.''],
            outcome = Returned\<rparr>"
  using assms by (simp add: pasteAsTypes_def Let_def)

lemma path_name_cancelled:
  assumes "getTargetLanguage env editor = (language, ev1)" "\<not> cancelled language"
    "paste env = Inr content" "kind = ''typescript'' \<or> jsonIsValid env content"
    "showInputBox env ''Top-level type name?'' = None"
  shows "pasteAsTypes env editor kind justTypes =
           \<lparr>events = ev1 @ [Paste, ShowInputBox ''Top-level type name?''], outcome = Returned\<rparr>"
proof -
  have guard: "(kind \<noteq> ''typescript'' \<and> \<not> jsonIsValid env content) = False"
    using assms(4) by blast
  show ?thesis
    using assms(1,2,3,5)
    by (simp add: pasteAsTypes_def Let_def promptTopLevelName_def guard split del: if_split)
qed

lemma path_unrecognized:
  assumes "getTargetLanguage env editor = (language, ev1)" "\<not> cancelled language"
    "paste env = Inr content" "kind = ''typescript'' \<or> jsonIsValid env content"
    "showInputBox env ''Top-level type name?'' = Some n"
    "js_lookup (source_table (js_or (Some n) ''TopLevel'') content) kind = None"
  shows "pasteAsTypes env editor kind justTypes =
           \<lparr>events = ev1 @ [Paste, ShowInputBox ''Top-level type name?'',
                      ShowErrorMessage (''Unrecognized input format: '' @ kind)],
            outcome = Returned\<rparr>"
proof -
  have guard: "(kind \<noteq> ''typescript'' \<and> \<not> jsonIsValid env content) = False"
    using assms(4) by blast
  show ?thesis
    using assms(1,2,3,5,6)
    by (simp add: pasteAsTypes_def Let_def promptTopLevelName_def guard split del: if_split)
qed

lemma path_engine:
  assumes "getTargetLanguage env editor = (language, ev1)" "\<not> cancelled language"
    "paste env = Inr content" "kind = ''typescript'' \<or> jsonIsValid env content"
    "showInputBox env ''Top-level type name?'' = Some n"
    "js_lookup (source_table (js_or (Some n) ''TopLevel'') content) kind = Some source"
  shows "pasteAsTypes env editor kind justTypes =
           (let call = engine_call editor justTypes (name language) source;
                ev3 = ev1 @ [Paste, ShowInputBox ''Top-level type name?'',
                        SendEvent (''paste '' @ kind) (name language), Quicktype call]
            in case quicktype env call of
                 Uncatchable \<Rightarrow> \<lparr>events = ev3, outcome = Faulted\<rparr>
               | Rejects e \<Rightarrow> \<lparr>events = ev3 @ [ShowErrorMessage e], outcome = Returned\<rparr>
               | Resolves lines \<Rightarrow>
                   \<lparr>events = ev3 @
                      [EditorEdit (selection_edit (selection editor) (join_lines lines))],
                    outcome = Returned\<rparr>)"
proof -
  have guard: "(kind \<noteq> ''typescript'' \<and> \<not> jsonIsValid env content) = False"
    using assms(4) by blast
  show ?thesis
    using assms(1,2,3,5,6)
    by (simp add: pasteAsTypes_def Let_def promptTopLevelName_def engine_call_def guard
        split del: if_split cong: quicktype_result.case_cong)
qed

text \<open>Every run takes exactly one of eight paths.\<close>

lemma pasteAsTypes_cases:
  fixes env editor kind justTypes
  defines "r \<equiv> pasteAsTypes env editor kind justTypes"
  defines "language \<equiv> fst (getTargetLanguage env editor)"
  defines "ev1 \<equiv> snd (getTargetLanguage env editor)"
  obtains
    (language_cancelled) "cancelled language" "r = \<lparr>events = ev1, outcome = Returned\<rparr>"
  | (paste_fails) err where "\<not> cancelled language" "paste env = Inl err"
      "r = \<lparr>events = ev1 @ [Paste], outcome = Rejected err\<rparr>"
  | (invalid_json) content where "\<not> cancelled language" "paste env = Inr content"
      "kind \<noteq> ''typescript''" "\<not> jsonIsValid env content"
      "r = \<lparr>events = ev1 @ [Paste, ShowErrorMessage ''Clipboard does not contain valid JSON.''],
            outcome = Returned\<rparr>"
  | (name_cancelled) content where "\<not> cancelled language" "paste env = Inr content"
      "kind = ''typescript'' \<or> jsonIsValid env content"
      "showInputBox env ''Top-level type name?'' = None"
      "r = \<lparr>events = ev1 @ [Paste, ShowInputBox ''Top-level type name?''], outcome = Returned\<rparr>"
  | (unrecognized) content n where "\<not> cancelled language" "paste env = Inr content"
      "kind = ''typescript'' \<or> jsonIsValid env content"
      "showInputBox env ''Top-level type name?'' = Some n"
      "js_lookup (source_table (js_or (Some n) ''TopLevel'') content) kind = None"
      "r = \<lparr>events = ev1 @ [Paste, ShowInputBox ''Top-level type name?'',
                   ShowErrorMessage (''Unrecognized input format: '' @ kind)],
            outcome = Returned\<rparr>"
  | (engine_faults) content n source call where "\<not> cancelled language" "paste env = Inr content"
      "kind = ''typescript'' \<or> jsonIsValid env content"
      "showInputBox env ''Top-level type name?'' = Some n"
      "js_lookup (source_table (js_or (Some n) ''TopLevel'') content) kind = Some source"
      "call = engine_call editor justTypes (name language) source"
      "quicktype env call = Uncatchable"
      "r = \<lparr>events = ev1 @ [Paste, ShowInputBox ''Top-level type name?'',
                   SendEvent (''paste '' @ kind) (name language), Quicktype call],
            outcome = Faulted\<rparr>"
  | (engine_rejects) content n source call e where "\<not> cancelled language" "paste env = Inr content"
      "kind = ''typescript'' \<or> jsonIsValid env content"
      "showInputBox env ''Top-level type name?'' = Some n"
      "js_lookup (source_table (js_or (Some n) ''TopLevel'') content) kind = Some source"
      "call = engine_call editor justTypes (name language) source"
      "quicktype env call = Rejects e"
      "r = \<lparr>events = ev1 @ [Paste, ShowInputBox ''Top-level type name?'',
                   SendEvent (''paste '' @ kind) (name language), Quicktype call,
                   ShowErrorMessage e],
            outcome = Returned\<rparr>"
  | (engine_resolves) content n source call lines where "\<not> cancelled language"
      "paste env = Inr content"
      "kind = ''typescript'' \<or> jsonIsValid env content"
      "showInputBox env ''Top-level type name?'' = Some n"
      "js_lookup (source_table (js_or (Some n) ''TopLevel'') content) kind = Some source"
      "call = engine_call editor justTypes (name language) source"
      "quicktype env call = Resolves lines"
      "r = \<lparr>events = ev1 @ [Paste, ShowInputBox ''Top-level type name?'',
                   SendEvent (''paste '' @ kind) (name language), Quicktype call,
                   EditorEdit (selection_edit (selection editor) (join_lines lines))],
            outcome = Returned\<rparr>"
proof -
  have g: "getTargetLanguage env editor = (language, ev1)"
    by (simp add: language_def ev1_def)
  show thesis
  proof (cases "cancelled language")
    case True
    with g show thesis using language_cancelled path_language_cancelled r_def by blast
  next
    case nc: False
    show thesis
    proof (cases "paste env")
      case (Inl err)
      with g nc show thesis using paste_fails path_paste_fails r_def by blast
    next
      case (Inr content)
      show thesis
      proof (cases "kind \<noteq> ''typescript'' \<and> \<not> jsonIsValid env content")
        case True
        with g nc Inr show thesis using invalid_json path_invalid_json r_def by blast
      next
        case False
        then have ok: "kind = ''typescript'' \<or> jsonIsValid env content" by blast
        show thesis
        proof (cases "showInputBox env ''Top-level type name?''")
          case None
          with g nc Inr ok show thesis using name_cancelled path_name_cancelled r_def by blast
        next
          case (Some n)
          show thesis
          proof (cases "js_lookup (source_table (js_or (Some n) ''TopLevel'') content) kind")
            case None
            with g nc Inr ok Some show thesis
              using unrecognized path_unrecognized r_def by blast
          next
            case src: (Some source)
            define call where "call = engine_call editor justTypes (name language) source"
            have p: "r = (case quicktype env call of
                 Uncatchable \<Rightarrow> \<lparr>events = ev1 @ [Paste, ShowInputBox ''Top-level type name?'',
                        SendEvent (''paste '' @ kind) (name language), Quicktype call], outcome = Faulted\<rparr>
               | Rejects e \<Rightarrow> \<lparr>events = (ev1 @ [Paste, ShowInputBox ''Top-level type name?'',
                        SendEvent (''paste '' @ kind) (name language), Quicktype call]) @ [ShowErrorMessage e], outcome = Returned\<rparr>
               | Resolves lines \<Rightarrow>
                   \<lparr>events = (ev1 @ [Paste, ShowInputBox ''Top-level type name?'',
                        SendEvent (''paste '' @ kind) (name language), Quicktype call]) @
                      [EditorEdit (selection_edit (selection editor) (join_lines lines))],
                    outcome = Returned\<rparr>)"
              unfolding r_def call_def
              using path_engine [OF g nc Inr ok Some src, of justTypes]
              by (simp only: Let_def)
            show thesis
            proof (cases "quicktype env call")
              case (Resolves lines)
              with p have "r = \<lparr>events = ev1 @ [Paste, ShowInputBox ''Top-level type name?'',
                   SendEvent (''paste '' @ kind) (name language), Quicktype call,
                   EditorEdit (selection_edit (selection editor) (join_lines lines))],
                 outcome = Returned\<rparr>" by simp
              with nc Inr ok Some src call_def Resolves show thesis
                using engine_resolves by blast
            next
              case (Rejects e)
              with p have "r = \<lparr>events = ev1 @ [Paste, ShowInputBox ''Top-level type name?'',
                   SendEvent (''paste '' @ kind) (name language), Quicktype call,
                   ShowErrorMessage e],
                 outcome = Returned\<rparr>" by simp
              with nc Inr ok Some src call_def Rejects show thesis
                using engine_rejects by blast
            next
              case Uncatchable
              with p have "r = \<lparr>events = ev1 @ [Paste, ShowInputBox ''Top-level type name?'',
                   SendEvent (''paste '' @ kind) (name language), Quicktype call],
                 outcome = Faulted\<rparr>" by simp
              with nc Inr ok Some src call_def Uncatchable show thesis
                using engine_faults by blast
            qed
          qed
        qed
      qed
    qed
  qed
qed

lemma edits_cases:
  "edits (pasteAsTypes env editor kind justTypes) = [] \<or>
   (\<exists>call lines.
      engine_calls (pasteAsTypes env editor kind justTypes) = [call] \<and>
      quicktype env call = Resolves lines \<and>
      edits (pasteAsTypes env editor kind justTypes) =
        [selection_edit (selection editor) (join_lines lines)])"
  by (rule pasteAsTypes_cases [of env editor kind justTypes])
     (simp_all add: edits_def engine_calls_def ev1_projections)

lemma engine_calls_language:
  "\<forall>call \<in> set (engine_calls (pasteAsTypes env editor kind justTypes)).
     lang call = name (fst (getTargetLanguage env editor)) \<and>
     \<not> cancelled (fst (getTargetLanguage env editor))"
  by (rule pasteAsTypes_cases [of env editor kind justTypes])
     (simp_all add: engine_calls_def ev1_projections engine_call_sel)

lemma typescript_ignores_JSON_parse:
  "pasteAsTypes (env\<lparr>JSON_parse := p\<rparr>) editor ''typescript'' justTypes =
   pasteAsTypes env editor ''typescript'' justTypes"
  by (simp add: pasteAsTypes_def getTargetLanguage_def paste_def promptTopLevelName_def
      Let_def split del: if_split
      cong: sum.case_cong option.case_cong quicktype_result.case_cong if_cong prod.case_cong)

subsection \<open>The example runs\<close>

lemma example_env_facts:
  "getTargetLanguage example_env example_editor = (\<lparr>cancelled = False, name = ''TypeScript''\<rparr>, [])"
  "getTargetLanguage example_env plaintext_editor =
     (\<lparr>cancelled = True, name = ''types''\<rparr>, [ShowQuickPick [''TypeScript'']])"
  "paste example_env = Inr ''[1, 2]''"
  "jsonIsValid example_env ''[1, 2]''"
  "showInputBox example_env p = Some []"
  "quicktype example_env c = Resolves [''export type TopLevel = number[];'', ''// end'']"
  by (simp_all add: getTargetLanguage_def paste_def jsonIsValid_def example_env_def
      example_editor_def plaintext_editor_def typescript_language_def)

lemma invalid_clipboard_env_facts:
  "getTargetLanguage invalid_clipboard_env example_editor =
     (\<lparr>cancelled = False, name = ''TypeScript''\<rparr>, [])"
  "getTargetLanguage invalid_clipboard_env plaintext_editor =
     (\<lparr>cancelled = True, name = ''types''\<rparr>, [ShowQuickPick [''TypeScript'']])"
  "paste invalid_clipboard_env = Inr ''[1, 2''"
  "\<not> jsonIsValid invalid_clipboard_env ''[1, 2''"
  by (simp_all add: getTargetLanguage_def paste_def jsonIsValid_def invalid_clipboard_env_def
      example_env_def example_editor_def plaintext_editor_def typescript_language_def)

lemma rejecting_env_facts:
  "getTargetLanguage rejecting_env example_editor =
     (\<lparr>cancelled = False, name = ''TypeScript''\<rparr>, [])"
  "paste rejecting_env = Inr ''[1, 2]''"
  "jsonIsValid rejecting_env ''[1, 2]''"
  "showInputBox rejecting_env p = Some []"
  "quicktype rejecting_env c = Rejects ''cannot render''"
  by (simp_all add: getTargetLanguage_def paste_def jsonIsValid_def rejecting_env_def
      example_env_def example_editor_def typescript_language_def)

lemma picking_env_facts:
  "getTargetLanguage picking_env plaintext_editor =
     (\<lparr>cancelled = False, name = ''TypeScript''\<rparr>, [ShowQuickPick [''TypeScript'']])"
  "paste picking_env = Inr ''[1, 2]''"
  "jsonIsValid picking_env ''[1, 2]''"
  "showInputBox picking_env p = Some []"
  "quicktype picking_env c = Resolves [''export type TopLevel = number[];'', ''// end'']"
  by (simp_all add: getTargetLanguage_def paste_def jsonIsValid_def picking_env_def
      example_env_def plaintext_editor_def typescript_language_def)

lemma garbage_env_facts:
  "getTargetLanguage garbage_env example_editor =
     (\<lparr>cancelled = False, name = ''TypeScript''\<rparr>, [])"
  "paste garbage_env = Inr ''interface {''"
  "\<not> jsonIsValid garbage_env ''interface {''"
  "showInputBox garbage_env p = Some []"
  "quicktype garbage_env c = Rejects ''syntax error''"
  by (simp_all add: getTargetLanguage_def paste_def jsonIsValid_def garbage_env_def
      example_env_def example_editor_def typescript_language_def)

lemma example_run:
  "pasteAsTypes example_env example_editor ''json'' True =
     \<lparr>events =
        [Paste, ShowInputBox ''Top-level type name?'',
         SendEvent ''paste json'' ''TypeScript'',
         Quicktype (engine_call example_editor True ''TypeScript''
                      (JSONTypeSource ''TopLevel'' [''[1, 2]''])),
         EditorEdit (Replace (NewRange 2 5)
           (''export type TopLevel = number[];'' @ [CHR 0x0A] @ ''// end''))],
      outcome = Returned\<rparr>"
proof -
  have s: "js_lookup (source_table (js_or (Some []) ''TopLevel'') ''[1, 2]'') ''json'' =
             Some (JSONTypeSource ''TopLevel'' [''[1, 2]''])"
    by (simp add: js_lookup_def source_table_def)
  have k: "''json'' = ''typescript'' \<or> jsonIsValid example_env ''[1, 2]''"
    by (simp add: example_env_facts)
  have sel: "selection_edit (selection example_editor) t = Replace (NewRange 2 5) t" for t
    by (simp add: selection_edit_def example_editor_def)
  show ?thesis
    using path_engine [OF example_env_facts(1) _ example_env_facts(3) k
        example_env_facts(5) s, of True]
    by (simp add: Let_def example_env_facts sel)
qed

text \<open>A kind outside the declared type that names a member of \<^verbatim>\<open>Object.prototype\<close>: the
  lookup finds the member and the run goes on to the engine and the edit.\<close>

lemma inherited_kind_run:
  "pasteAsTypes example_env example_editor ''constructor'' True =
     \<lparr>events =
        [Paste, ShowInputBox ''Top-level type name?'',
         SendEvent ''paste constructor'' ''TypeScript'',
         Quicktype (engine_call example_editor True ''TypeScript''
                      (ObjectPrototypeMember ''constructor'')),
         EditorEdit (Replace (NewRange 2 5)
           (''export type TopLevel = number[];'' @ [CHR 0x0A] @ ''// end''))],
      outcome = Returned\<rparr>"
proof -
  have s: "js_lookup (source_table (js_or (Some []) ''TopLevel'') ''[1, 2]'') ''constructor'' =
             Some (ObjectPrototypeMember ''constructor'')"
    by (simp add: js_lookup_def source_table_def Object_prototype_def)
  have k: "''constructor'' = ''typescript'' \<or> jsonIsValid example_env ''[1, 2]''"
    by (simp add: example_env_facts)
  have sel: "selection_edit (selection example_editor) t = Replace (NewRange 2 5) t" for t
    by (simp add: selection_edit_def example_editor_def)
  show ?thesis
    using path_engine [OF example_env_facts(1) _ example_env_facts(3) k
        example_env_facts(5) s, of True]
    by (simp add: Let_def example_env_facts sel)
qed

lemma rejecting_run:
  "pasteAsTypes rejecting_env example_editor ''json'' True =
     \<lparr>events =
        [Paste, ShowInputBox ''Top-level type name?'',
         SendEvent ''paste json'' ''TypeScript'',
         Quicktype (engine_call example_editor True ''TypeScript''
                      (JSONTypeSource ''TopLevel'' [''[1, 2]''])),
         ShowErrorMessage ''cannot render''],
      outcome = Returned\<rparr>"
proof -
  have s: "js_lookup (source_table (js_or (Some []) ''TopLevel'') ''[1, 2]'') ''json'' =
             Some (JSONTypeSource ''TopLevel'' [''[1, 2]''])"
    by (simp add: js_lookup_def source_table_def)
  have k: "''json'' = ''typescript'' \<or> jsonIsValid rejecting_env ''[1, 2]''"
    by (simp add: rejecting_env_facts)
  show ?thesis
    using path_engine [OF rejecting_env_facts(1) _ rejecting_env_facts(2) k
        rejecting_env_facts(4) s, of True]
    by (simp add: Let_def rejecting_env_facts)
qed

lemma picking_run:
  "pasteAsTypes picking_env plaintext_editor ''json'' True =
     \<lparr>events =
        [ShowQuickPick [''TypeScript''], Paste, ShowInputBox ''Top-level type name?'',
         SendEvent ''paste json'' ''TypeScript'',
         Quicktype (engine_call plaintext_editor True ''TypeScript''
                      (JSONTypeSource ''TopLevel'' [''[1, 2]''])),
         EditorEdit (Insert 3
           (''export type TopLevel = number[];'' @ [CHR 0x0A] @ ''// end''))],
      outcome = Returned\<rparr>"
proof -
  have s: "js_lookup (source_table (js_or (Some []) ''TopLevel'') ''[1, 2]'') ''json'' =
             Some (JSONTypeSource ''TopLevel'' [''[1, 2]''])"
    by (simp add: js_lookup_def source_table_def)
  have k: "''json'' = ''typescript'' \<or> jsonIsValid picking_env ''[1, 2]''"
    by (simp add: picking_env_facts)
  have sel: "selection_edit (selection plaintext_editor) t = Insert 3 t" for t
    by (simp add: selection_edit_def plaintext_editor_def)
  show ?thesis
    using path_engine [OF picking_env_facts(1) _ picking_env_facts(2) k
        picking_env_facts(4) s, of True]
    by (simp add: Let_def picking_env_facts sel)
qed

lemma garbage_run:
  "pasteAsTypes garbage_env example_editor ''typescript'' False =
     \<lparr>events =
        [Paste, ShowInputBox ''Top-level type name?'',
         SendEvent ''paste typescript'' ''TypeScript'',
         Quicktype (engine_call example_editor False ''TypeScript''
                      (TypeScriptTypeSource [(''TopLevel.ts'', ''interface {'')])),
         ShowErrorMessage ''syntax error''],
      outcome = Returned\<rparr>"
proof -
  have s: "js_lookup (source_table (js_or (Some []) ''TopLevel'') ''interface {'') ''typescript'' =
             Some (TypeScriptTypeSource [(''TopLevel.ts'', ''interface {'')])"
    by (simp add: js_lookup_def source_table_def)
  have k: "''typescript'' = ''typescript'' \<or> jsonIsValid garbage_env ''interface {''"
    by simp
  show ?thesis
    using path_engine [OF garbage_env_facts(1) _ garbage_env_facts(2) k
        garbage_env_facts(4) s, of False]
    by (simp add: Let_def garbage_env_facts)
qed

section \<open>Invalid clipboard content\<close>

text \<open>
  C1 (as the code has it). In a run with kind \<^verbatim>\<open>json\<close> or \<^verbatim>\<open>schema\<close> in which the target
  language is resolved (the run is not cancelled at the language list) and the clipboard is
  read, content that \<^verbatim>\<open>JSON.parse\<close> rejects makes the run show the error message
  "Clipboard does not contain valid JSON." and return: the top-level name is not asked for,
  the engine is not called, nothing is edited, and the promise of the run neither rejects
  nor faults. In a run that is cancelled at the language list, whatever the kind and the
  clipboard, the clipboard is not read, no error message is shown, the engine is not called
  and nothing is edited.
\<close>

theorem invalid_json_reported:
  fixes env editor kind justTypes
  defines "r \<equiv> pasteAsTypes env editor kind justTypes"
  shows "(\<forall>content.
            (kind = ''json'' \<or> kind = ''schema'') \<and>
            \<not> cancelled (fst (getTargetLanguage env editor)) \<and>
            paste env = Inr content \<and> \<not> jsonIsValid env content \<longrightarrow>
            r = \<lparr>events = snd (getTargetLanguage env editor) @
                   [Paste, ShowErrorMessage ''Clipboard does not contain valid JSON.''],
                 outcome = Returned\<rparr> \<and>
            error_messages r = [''Clipboard does not contain valid JSON.''] \<and>
            ShowInputBox ''Top-level type name?'' \<notin> set (events r) \<and>
            engine_calls r = [] \<and> edits r = [] \<and> outcome r = Returned)
       \<and> (cancelled (fst (getTargetLanguage env editor)) \<longrightarrow>
            Paste \<notin> set (events r) \<and> error_messages r = [] \<and>
            engine_calls r = [] \<and> edits r = [] \<and> outcome r = Returned)"
proof -
  have first: "r = \<lparr>events = snd (getTargetLanguage env editor) @
                   [Paste, ShowErrorMessage ''Clipboard does not contain valid JSON.''],
                 outcome = Returned\<rparr> \<and>
            error_messages r = [''Clipboard does not contain valid JSON.''] \<and>
            ShowInputBox ''Top-level type name?'' \<notin> set (events r) \<and>
            engine_calls r = [] \<and> edits r = [] \<and> outcome r = Returned"
    if k: "kind = ''json'' \<or> kind = ''schema''"
      and c: "\<not> cancelled (fst (getTargetLanguage env editor))"
      and p: "paste env = Inr content" and v: "\<not> jsonIsValid env content"
    for content
  proof -
    from k have t: "kind \<noteq> ''typescript''" by auto
    have e: "r = \<lparr>events = snd (getTargetLanguage env editor) @
                 [Paste, ShowErrorMessage ''Clipboard does not contain valid JSON.''],
               outcome = Returned\<rparr>"
      unfolding r_def
      using path_invalid_json [of env editor "fst (getTargetLanguage env editor)"
          "snd (getTargetLanguage env editor)" content kind justTypes] c p v t
      by simp
    have q: "ShowInputBox ''Top-level type name?'' \<notin> set (snd (getTargetLanguage env editor))"
      using getTargetLanguage_events [of env editor] by auto
    from e q show ?thesis
      by (simp add: error_messages_def engine_calls_def edits_def ev1_projections)
  qed
  have second: "Paste \<notin> set (events r) \<and> error_messages r = [] \<and>
            engine_calls r = [] \<and> edits r = [] \<and> outcome r = Returned"
    if c: "cancelled (fst (getTargetLanguage env editor))"
  proof -
    have "r = \<lparr>events = snd (getTargetLanguage env editor), outcome = Returned\<rparr>"
      unfolding r_def
      using path_language_cancelled [of env editor "fst (getTargetLanguage env editor)"
          "snd (getTargetLanguage env editor)" kind justTypes] c
      by simp
    then show ?thesis
      by (simp add: error_messages_def engine_calls_def edits_def ev1_projections)
  qed
  from first second show ?thesis by blast
qed

theorem invalid_json_reported_witness:
  "\<not> cancelled (fst (getTargetLanguage invalid_clipboard_env example_editor)) \<and>
   paste invalid_clipboard_env = Inr ''[1, 2'' \<and>
   \<not> jsonIsValid invalid_clipboard_env ''[1, 2'' \<and>
   pasteAsTypes invalid_clipboard_env example_editor ''json'' True =
     \<lparr>events = [Paste, ShowErrorMessage ''Clipboard does not contain valid JSON.''],
      outcome = Returned\<rparr> \<and>
   engine_calls (pasteAsTypes invalid_clipboard_env example_editor ''json'' True) = [] \<and>
   cancelled (fst (getTargetLanguage invalid_clipboard_env plaintext_editor)) \<and>
   Paste \<notin> set (events (pasteAsTypes invalid_clipboard_env plaintext_editor ''schema'' False)) \<and>
   error_messages (pasteAsTypes invalid_clipboard_env plaintext_editor ''schema'' False) = [] \<and>
   engine_calls (pasteAsTypes invalid_clipboard_env plaintext_editor ''schema'' False) = []"
proof -
  have k: "''json'' = ''json'' \<or> ''json'' = ''schema''" by simp
  have c: "\<not> cancelled (fst (getTargetLanguage invalid_clipboard_env example_editor))"
    by (simp add: invalid_clipboard_env_facts)
  have p: "paste invalid_clipboard_env = Inr ''[1, 2''"
    by (simp add: invalid_clipboard_env_facts)
  have v: "\<not> jsonIsValid invalid_clipboard_env ''[1, 2''"
    by (simp add: invalid_clipboard_env_facts)
  from invalid_json_reported [of "''json''" invalid_clipboard_env example_editor True] k c p v
  have "pasteAsTypes invalid_clipboard_env example_editor ''json'' True =
          \<lparr>events = snd (getTargetLanguage invalid_clipboard_env example_editor) @
             [Paste, ShowErrorMessage ''Clipboard does not contain valid JSON.''],
           outcome = Returned\<rparr> \<and>
        engine_calls (pasteAsTypes invalid_clipboard_env example_editor ''json'' True) = []"
    by blast
  then have a: "pasteAsTypes invalid_clipboard_env example_editor ''json'' True =
          \<lparr>events = [Paste, ShowErrorMessage ''Clipboard does not contain valid JSON.''],
           outcome = Returned\<rparr> \<and>
        engine_calls (pasteAsTypes invalid_clipboard_env example_editor ''json'' True) = []"
    by (simp add: invalid_clipboard_env_facts engine_calls_def)
  have d: "cancelled (fst (getTargetLanguage invalid_clipboard_env plaintext_editor))"
    by (simp add: invalid_clipboard_env_facts)
  from invalid_json_reported [of "''schema''" invalid_clipboard_env plaintext_editor False] d
  have b: "Paste \<notin> set (events (pasteAsTypes invalid_clipboard_env plaintext_editor ''schema'' False)) \<and>
     error_messages (pasteAsTypes invalid_clipboard_env plaintext_editor ''schema'' False) = [] \<and>
     engine_calls (pasteAsTypes invalid_clipboard_env plaintext_editor ''schema'' False) = []"
    by blast
  from c p v a d b show ?thesis by blast
qed

text \<open>
  The claim as written speaks of every invocation. In this run the clipboard holds text
  that \<^verbatim>\<open>JSON.parse\<close> rejects and the kind is \<^verbatim>\<open>json\<close>, but the document language is
  unknown to the engine and the user dismisses the language list: the run returns before
  it reads the clipboard and shows no error message.
\<close>

theorem invalid_json_unreported_counterexample:
  "paste invalid_clipboard_env = Inr ''[1, 2'' \<and>
   \<not> jsonIsValid invalid_clipboard_env ''[1, 2'' \<and>
   pasteAsTypes invalid_clipboard_env plaintext_editor ''json'' True =
     \<lparr>events = [ShowQuickPick [''TypeScript'']], outcome = Returned\<rparr> \<and>
   error_messages (pasteAsTypes invalid_clipboard_env plaintext_editor ''json'' True) = []"
proof -
  have "pasteAsTypes invalid_clipboard_env plaintext_editor ''json'' True =
     \<lparr>events = [ShowQuickPick [''TypeScript'']], outcome = Returned\<rparr>"
    using path_language_cancelled [OF invalid_clipboard_env_facts(2)] by simp
  then show ?thesis
    by (simp add: invalid_clipboard_env_facts error_messages_def)
qed

section \<open>All of the generated text or none of it\<close>

text \<open>
  C2. A run hands the editor either no edit at all, and the document is as it was, or
  exactly one edit, whose text is all the lines the engine returned, each line but the last
  followed by a line feed, in their order. It hands over none when the language list is
  dismissed, when the clipboard cannot be read, when the content is not valid JSON (kind
  other than \<^verbatim>\<open>typescript\<close>), when the name prompt is dismissed, when the lookup of the kind
  finds no source, when the engine does not resolve, and whenever an error message was
  shown or the promise of the run did not return.
\<close>

theorem pasteAsTypes_atomic:
  fixes env editor kind justTypes doc
  defines "r \<equiv> pasteAsTypes env editor kind justTypes"
  shows "((edits r = [] \<and> document_after r doc = doc) \<or>
          (\<exists>call lines. engine_calls r = [call] \<and> quicktype env call = Resolves lines \<and>
             outcome r = Returned \<and> error_messages r = [] \<and>
             edits r =
               [selection_edit (selection editor)
                  (if lines = [] then []
                   else concat (map (\<lambda>l. l @ [CHR 0x0A]) (butlast lines)) @ last lines)] \<and>
             document_after r doc =
               apply_edit
                 (selection_edit (selection editor)
                    (if lines = [] then []
                     else concat (map (\<lambda>l. l @ [CHR 0x0A]) (butlast lines)) @ last lines))
                 doc))
       \<and> (cancelled (fst (getTargetLanguage env editor)) \<longrightarrow> edits r = [])
       \<and> (\<forall>err. paste env = Inl err \<longrightarrow> edits r = [])
       \<and> (\<forall>content. paste env = Inr content \<and> kind \<noteq> ''typescript'' \<and>
             \<not> jsonIsValid env content \<longrightarrow> edits r = [])
       \<and> (cancelled (fst (promptTopLevelName env)) \<longrightarrow> edits r = [])
       \<and> (kind \<noteq> ''json'' \<and> kind \<noteq> ''schema'' \<and> kind \<noteq> ''typescript'' \<and>
            kind \<notin> set Object_prototype \<longrightarrow> edits r = [])
       \<and> (\<forall>call \<in> set (engine_calls r).
             (\<forall>lines. quicktype env call \<noteq> Resolves lines) \<longrightarrow> edits r = [])
       \<and> (error_messages r \<noteq> [] \<or> outcome r \<noteq> Returned \<longrightarrow> edits r = [])"
proof -
  have full: "join_lines lines =
      (if lines = [] then []
       else concat (map (\<lambda>l. l @ [CHR 0x0A]) (butlast lines)) @ last lines)" for lines
    by (rule join_lines_full)
  have whole: "(edits r = [] \<and> document_after r doc = doc) \<or>
          (\<exists>call lines. engine_calls r = [call] \<and> quicktype env call = Resolves lines \<and>
             outcome r = Returned \<and> error_messages r = [] \<and>
             edits r = [selection_edit (selection editor) (join_lines lines)] \<and>
             document_after r doc =
               apply_edit (selection_edit (selection editor) (join_lines lines)) doc)"
    unfolding r_def
    by (rule pasteAsTypes_cases [of env editor kind justTypes])
       (simp_all add: edits_def engine_calls_def error_messages_def ev1_projections
          document_after_def)
  have causes: "(cancelled (fst (getTargetLanguage env editor)) \<longrightarrow> edits r = [])
       \<and> (\<forall>err. paste env = Inl err \<longrightarrow> edits r = [])
       \<and> (\<forall>content. paste env = Inr content \<and> kind \<noteq> ''typescript'' \<and>
             \<not> jsonIsValid env content \<longrightarrow> edits r = [])
       \<and> (cancelled (fst (promptTopLevelName env)) \<longrightarrow> edits r = [])
       \<and> (kind \<noteq> ''json'' \<and> kind \<noteq> ''schema'' \<and> kind \<noteq> ''typescript'' \<and>
            kind \<notin> set Object_prototype \<longrightarrow> edits r = [])
       \<and> (\<forall>call \<in> set (engine_calls r).
             (\<forall>lines. quicktype env call \<noteq> Resolves lines) \<longrightarrow> edits r = [])
       \<and> (error_messages r \<noteq> [] \<or> outcome r \<noteq> Returned \<longrightarrow> edits r = [])"
    unfolding r_def
    by (rule pasteAsTypes_cases [of env editor kind justTypes])
       (auto simp: edits_def engine_calls_def error_messages_def ev1_projections
          promptTopLevelName_simps js_lookup_None dest: js_lookup_Some)
  from whole have "(edits r = [] \<and> document_after r doc = doc) \<or>
          (\<exists>call lines. engine_calls r = [call] \<and> quicktype env call = Resolves lines \<and>
             outcome r = Returned \<and> error_messages r = [] \<and>
             edits r =
               [selection_edit (selection editor)
                  (if lines = [] then []
                   else concat (map (\<lambda>l. l @ [CHR 0x0A]) (butlast lines)) @ last lines)] \<and>
             document_after r doc =
               apply_edit
                 (selection_edit (selection editor)
                    (if lines = [] then []
                     else concat (map (\<lambda>l. l @ [CHR 0x0A]) (butlast lines)) @ last lines))
                 doc)"
    unfolding full .
  with causes show ?thesis by blast
qed

theorem pasteAsTypes_atomic_witness:
  "error_messages (pasteAsTypes rejecting_env example_editor ''json'' True) \<noteq> [] \<and>
   edits (pasteAsTypes rejecting_env example_editor ''json'' True) = [] \<and>
   edits (pasteAsTypes example_env example_editor ''json'' True) =
     [Replace (NewRange 2 5)
        (''export type TopLevel = number[];'' @ [CHR 0x0A] @ ''// end'')] \<and>
   document_after (pasteAsTypes example_env example_editor ''json'' True) ''x: any;'' =
     ''x:'' @ ''export type TopLevel = number[];'' @ [CHR 0x0A] @ ''// end'' @ ''y;''"
proof -
  have m: "error_messages (pasteAsTypes rejecting_env example_editor ''json'' True) \<noteq> []"
    by (simp add: rejecting_run error_messages_def)
  from pasteAsTypes_atomic [of rejecting_env example_editor "''json''" True] m
  have a: "edits (pasteAsTypes rejecting_env example_editor ''json'' True) = []"
    by blast
  have e: "edits (pasteAsTypes example_env example_editor ''json'' True) \<noteq> []"
    by (simp add: example_run edits_def)
  have sel: "selection_edit (selection example_editor) t = Replace (NewRange 2 5) t" for t
    by (simp add: selection_edit_def example_editor_def)
  from pasteAsTypes_atomic [of example_env example_editor "''json''" True "''x: any;''"] e
  obtain call lines where
    l: "quicktype example_env call = Resolves lines"
    and ed: "edits (pasteAsTypes example_env example_editor ''json'' True) =
           [selection_edit (selection example_editor)
              (if lines = [] then []
               else concat (map (\<lambda>l. l @ [CHR 0x0A]) (butlast lines)) @ last lines)]"
    and d: "document_after (pasteAsTypes example_env example_editor ''json'' True) ''x: any;'' =
           apply_edit
             (selection_edit (selection example_editor)
                (if lines = [] then []
                 else concat (map (\<lambda>l. l @ [CHR 0x0A]) (butlast lines)) @ last lines))
             ''x: any;''"
    by blast
  from l have ls: "lines = [''export type TopLevel = number[];'', ''// end'']"
    by (simp add: example_env_facts)
  from ed have b: "edits (pasteAsTypes example_env example_editor ''json'' True) =
     [Replace (NewRange 2 5)
        (''export type TopLevel = number[];'' @ [CHR 0x0A] @ ''// end'')]"
    by (simp add: ls sel)
  from d have c: "document_after (pasteAsTypes example_env example_editor ''json'' True)
       ''x: any;'' =
     ''x:'' @ ''export type TopLevel = number[];'' @ [CHR 0x0A] @ ''// end'' @ ''y;''"
    by (simp add: ls sel)
  from m a b c show ?thesis by blast
qed

section \<open>The target language\<close>

text \<open>
  C3. Let the language list answer with one of the names it was given, let
  \<^verbatim>\<open>languageNamed\<close> answer with one of the engine's \<^verbatim>\<open>languages\<close>, and let no language have an
  empty display name. Then \<^verbatim>\<open>getTargetLanguage\<close> returns the display name of the language
  that \<^verbatim>\<open>languageNamed\<close> recognizes, or, when the document language is unknown, the name
  the user picked from the list, or the cancelled flag, and a cancelled run never calls
  the engine: the name \<^verbatim>\<open>"types"\<close> is never returned in place of the user's choice. Every
  call of the engine has a supported language.
\<close>

theorem target_language_supported:
  fixes env editor kind justTypes
  defines "r \<equiv> fst (getTargetLanguage env editor)"
  assumes pick: "\<forall>choices s. showQuickPick env choices = Some s \<longrightarrow> s \<in> set choices"
    and named: "\<forall>i l. languageNamed env i = Some l \<longrightarrow> l \<in> set (languages env)"
    and nonempty: "\<forall>l \<in> set (languages env). displayName l \<noteq> []"
  shows "((\<exists>l. languageNamed env (languageId (document editor)) = Some l \<and>
              \<not> cancelled r \<and> name r = displayName l)
          \<or> (languageNamed env (languageId (document editor)) = None \<and>
              showQuickPick env (sort (map displayName (languages env))) = Some (name r) \<and>
              \<not> cancelled r)
          \<or> (cancelled r \<and> engine_calls (pasteAsTypes env editor kind justTypes) = []))
       \<and> (\<not> cancelled r \<longrightarrow> supported env (name r))
       \<and> (\<forall>call \<in> set (engine_calls (pasteAsTypes env editor kind justTypes)).
             supported env (lang call))"
proof -
  have shape: "(\<exists>l. languageNamed env (languageId (document editor)) = Some l \<and>
              \<not> cancelled r \<and> name r = displayName l)
          \<or> (languageNamed env (languageId (document editor)) = None \<and>
              showQuickPick env (sort (map displayName (languages env))) = Some (name r) \<and>
              \<not> cancelled r)
          \<or> cancelled r"
  proof (cases "languageNamed env (languageId (document editor))")
    case (Some l)
    then show ?thesis by (simp add: r_def getTargetLanguage_def)
  next
    case None
    show ?thesis
    proof (cases "showQuickPick env (sort (map displayName (languages env)))")
      case n: None
      with None show ?thesis by (simp add: r_def getTargetLanguage_def Let_def)
    next
      case (Some s)
      with pick have "s \<in> set (map displayName (languages env))" by fastforce
      with nonempty have "s \<noteq> []" by auto
      with None Some show ?thesis by (simp add: r_def getTargetLanguage_def Let_def)
    qed
  qed
  have sup: "supported env (name r)" if "\<not> cancelled r"
    using shape that pick named unfolding supported_def by fastforce
  have calls: "\<forall>call \<in> set (engine_calls (pasteAsTypes env editor kind justTypes)).
             lang call = name r \<and> \<not> cancelled r"
    unfolding r_def by (rule engine_calls_language)
  have none: "engine_calls (pasteAsTypes env editor kind justTypes) = []" if "cancelled r"
    using calls that by (cases "engine_calls (pasteAsTypes env editor kind justTypes)") auto
  have "\<forall>call \<in> set (engine_calls (pasteAsTypes env editor kind justTypes)).
             supported env (lang call)"
    using calls sup by simp
  moreover have "\<not> cancelled r \<longrightarrow> supported env (name r)"
    using sup by simp
  moreover have "(\<exists>l. languageNamed env (languageId (document editor)) = Some l \<and>
              \<not> cancelled r \<and> name r = displayName l)
          \<or> (languageNamed env (languageId (document editor)) = None \<and>
              showQuickPick env (sort (map displayName (languages env))) = Some (name r) \<and>
              \<not> cancelled r)
          \<or> (cancelled r \<and> engine_calls (pasteAsTypes env editor kind justTypes) = [])"
    using shape none by blast
  ultimately show ?thesis by simp
qed

theorem target_language_supported_witness:
  "languageNamed picking_env (languageId (document plaintext_editor)) = None \<and>
   showQuickPick picking_env (sort (map displayName (languages picking_env))) =
     Some ''TypeScript'' \<and>
   map lang (engine_calls (pasteAsTypes picking_env plaintext_editor ''json'' True)) =
     [''TypeScript''] \<and>
   supported picking_env ''TypeScript''"
proof -
  have pick: "\<forall>choices s. showQuickPick picking_env choices = Some s \<longrightarrow> s \<in> set choices"
    by (auto simp: picking_env_def split: list.splits)
  have named: "\<forall>i l. languageNamed picking_env i = Some l \<longrightarrow> l \<in> set (languages picking_env)"
    by (simp add: picking_env_def example_env_def)
  have nonempty: "\<forall>l \<in> set (languages picking_env). displayName l \<noteq> []"
    by (simp add: picking_env_def example_env_def typescript_language_def)
  have u: "languageNamed picking_env (languageId (document plaintext_editor)) = None"
    by (simp add: picking_env_def example_env_def plaintext_editor_def)
  have q: "showQuickPick picking_env (sort (map displayName (languages picking_env))) =
     Some ''TypeScript''"
    by (simp add: picking_env_def example_env_def typescript_language_def)
  have l: "map lang (engine_calls (pasteAsTypes picking_env plaintext_editor ''json'' True)) =
     [''TypeScript'']"
    by (simp add: picking_run engine_calls_def engine_call_sel)
  have m: "engine_call plaintext_editor True ''TypeScript''
             (JSONTypeSource ''TopLevel'' [''[1, 2]''])
           \<in> set (engine_calls (pasteAsTypes picking_env plaintext_editor ''json'' True))"
    by (simp add: picking_run engine_calls_def)
  from target_language_supported [OF pick named nonempty, of plaintext_editor "''json''" True] m
  have "supported picking_env
          (lang (engine_call plaintext_editor True ''TypeScript''
                   (JSONTypeSource ''TopLevel'' [''[1, 2]''])))"
    by blast
  then have "supported picking_env ''TypeScript''"
    by (simp add: engine_call_sel)
  with u q l show ?thesis by simp
qed

section \<open>Resolving the target language comes first\<close>

text \<open>
  C5. Every run begins with the resolution of the target language: its events start with
  those of \<^verbatim>\<open>getTargetLanguage\<close>. When the resolution is cancelled (the document language
  is unknown to the engine and no language is selected from the list), the run consists of
  showing the list and returns: the clipboard is not read, no source is built for the
  engine, the engine is not called and nothing is edited.
\<close>

theorem language_resolution_first:
  fixes env editor kind justTypes
  defines "r \<equiv> pasteAsTypes env editor kind justTypes"
  shows "(\<exists>rest. events r = snd (getTargetLanguage env editor) @ rest)
       \<and> (cancelled (fst (getTargetLanguage env editor)) \<longrightarrow>
            r = \<lparr>events = [ShowQuickPick (sort (map displayName (languages env)))],
                 outcome = Returned\<rparr> \<and>
            Paste \<notin> set (events r) \<and> engine_calls r = [] \<and> edits r = [])"
  unfolding r_def
  by (rule pasteAsTypes_cases [of env editor kind justTypes])
     (simp_all add: edits_def engine_calls_def getTargetLanguage_cancelled_events)

theorem language_resolution_first_witness:
  "cancelled (fst (getTargetLanguage example_env plaintext_editor)) \<and>
   pasteAsTypes example_env plaintext_editor ''schema'' False =
     \<lparr>events = [ShowQuickPick [''TypeScript'']], outcome = Returned\<rparr> \<and>
   Paste \<notin> set (events (pasteAsTypes example_env plaintext_editor ''schema'' False)) \<and>
   engine_calls (pasteAsTypes example_env plaintext_editor ''schema'' False) = []"
proof -
  have c: "cancelled (fst (getTargetLanguage example_env plaintext_editor))"
    by (simp add: example_env_facts)
  have s: "sort (map displayName (languages example_env)) = [''TypeScript'']"
    by (simp add: example_env_def typescript_language_def)
  from language_resolution_first [of example_env plaintext_editor "''schema''" False] c
  have "pasteAsTypes example_env plaintext_editor ''schema'' False =
          \<lparr>events = [ShowQuickPick (sort (map displayName (languages example_env)))],
           outcome = Returned\<rparr> \<and>
        Paste \<notin> set (events (pasteAsTypes example_env plaintext_editor ''schema'' False)) \<and>
        engine_calls (pasteAsTypes example_env plaintext_editor ''schema'' False) = []"
    by blast
  with c s show ?thesis by (simp add: engine_calls_def)
qed

section \<open>The indentation handed to the engine\<close>

text \<open>
  What the extension does with the indentation: every call of the engine carries as many
  spaces as the tab size when the editor inserts spaces, and one tab character otherwise.
  What the renderer does with the string is the engine's.
\<close>

lemma quicktype_indentation:
  "\<forall>call \<in> set (engine_calls (pasteAsTypes env editor kind justTypes)).
     indentation call =
       (if insertSpaces (options editor)
        then replicate (tabSize (options editor)) CHR '' ''
        else [CHR 0x09])"
  by (rule pasteAsTypes_cases [of env editor kind justTypes])
     (simp_all add: engine_calls_def ev1_projections engine_call_sel)

lemma quicktype_indentation_example:
  "map indentation (engine_calls (pasteAsTypes example_env example_editor ''json'' True)) =
     [''  ''] \<and>
   map indentation (engine_calls (pasteAsTypes picking_env plaintext_editor ''json'' True)) =
     [[CHR 0x09]]"
  by (simp add: example_run picking_run engine_calls_def engine_call_sel,
      simp_all add: example_editor_def plaintext_editor_def numeral_2_eq_2)

section \<open>The top-level name\<close>

text \<open>
  C8. When the user submits the empty string at the name prompt, \<^verbatim>\<open>promptTopLevelName\<close>
  returns cancelled = false and the name "TopLevel". It returns cancelled = true exactly
  when the input box returns undefined. With the empty string submitted, a run that has a
  target language, readable and (unless the kind is \<^verbatim>\<open>typescript\<close>) valid content and a
  recognized kind calls the engine once, with the source built under the name "TopLevel".
\<close>

theorem promptTopLevelName_default:
  "(showInputBox env ''Top-level type name?'' = Some [] \<longrightarrow>
      fst (promptTopLevelName env) = \<lparr>cancelled = False, name = ''TopLevel''\<rparr>)
   \<and> (cancelled (fst (promptTopLevelName env)) \<longleftrightarrow>
        showInputBox env ''Top-level type name?'' = None)
   \<and> (showInputBox env ''Top-level type name?'' = Some [] \<and>
        \<not> cancelled (fst (getTargetLanguage env editor)) \<and>
        paste env = Inr content \<and>
        (kind = ''typescript'' \<or> jsonIsValid env content) \<and>
        map_of (source_table ''TopLevel'' content) kind = Some source \<longrightarrow>
        map sources (engine_calls (pasteAsTypes env editor kind justTypes)) = [[source]])"
proof -
  have "map sources (engine_calls (pasteAsTypes env editor kind justTypes)) = [[source]]"
    if "showInputBox env ''Top-level type name?'' = Some []"
      "\<not> cancelled (fst (getTargetLanguage env editor))"
      "paste env = Inr content"
      "kind = ''typescript'' \<or> jsonIsValid env content"
      "map_of (source_table ''TopLevel'' content) kind = Some source"
  proof -
    have n: "js_lookup (source_table (js_or (Some []) ''TopLevel'') content) kind = Some source"
      using that(5) by (simp add: js_lookup_own)
    have g: "getTargetLanguage env editor =
               (fst (getTargetLanguage env editor), snd (getTargetLanguage env editor))"
      by simp
    note p = path_engine [OF g that(2) that(3) that(4) that(1) n, of justTypes]
    show ?thesis
      by (cases "quicktype env
                   (engine_call editor justTypes (name (fst (getTargetLanguage env editor))) source)")
         (simp_all add: p Let_def engine_calls_def ev1_projections engine_call_sel)
  qed
  then show ?thesis
    by (simp add: promptTopLevelName_simps)
qed

theorem promptTopLevelName_default_witness:
  "showInputBox example_env ''Top-level type name?'' = Some [] \<and>
   fst (promptTopLevelName example_env) = \<lparr>cancelled = False, name = ''TopLevel''\<rparr> \<and>
   map sources (engine_calls (pasteAsTypes example_env example_editor ''json'' True)) =
     [[JSONTypeSource ''TopLevel'' [''[1, 2]'']]]"
proof -
  have i: "showInputBox example_env ''Top-level type name?'' = Some []"
    by (simp add: example_env_facts)
  have c: "\<not> cancelled (fst (getTargetLanguage example_env example_editor))"
    by (simp add: example_env_facts)
  have p: "paste example_env = Inr ''[1, 2]''"
    by (simp add: example_env_facts)
  have v: "''json'' = ''typescript'' \<or> jsonIsValid example_env ''[1, 2]''"
    by (simp add: example_env_facts)
  have s: "map_of (source_table ''TopLevel'' ''[1, 2]'') ''json'' =
             Some (JSONTypeSource ''TopLevel'' [''[1, 2]''])"
    by (simp add: source_table_def)
  from promptTopLevelName_default [of example_env example_editor "''[1, 2]''" "''json''"
      "JSONTypeSource ''TopLevel'' [''[1, 2]'']" True] i c p v s
  show ?thesis by blast
qed

section \<open>The edit\<close>

text \<open>
  C9. The edit of a run touches the selection only. A run makes no edit, and the document
  is as it was, or it makes one edit: with an empty selection the insertion of the
  generated text at the start of the selection, otherwise the replacement of the range
  from the start to the end of the selection by the generated text. For a selection that
  lies in the document, the text before the start of the selection and the text after its
  end are unchanged.
\<close>

theorem final_edit_touches_only_selection:
  fixes env editor kind justTypes doc
  defines "r \<equiv> pasteAsTypes env editor kind justTypes"
  defines "sel \<equiv> selection editor"
  assumes "start sel \<le> end_pos sel" and "end_pos sel \<le> length doc"
  shows "(edits r = [] \<and> document_after r doc = doc) \<or>
         (\<exists>lines.
            edits r = [if isEmpty sel then Insert (start sel) (join_lines lines)
                       else Replace (NewRange (start sel) (end_pos sel)) (join_lines lines)] \<and>
            document_after r doc =
              take (start sel) doc @ join_lines lines @
              drop (if isEmpty sel then start sel else end_pos sel) doc \<and>
            take (start sel) (document_after r doc) = take (start sel) doc \<and>
            drop (start sel + length (join_lines lines)) (document_after r doc) =
              drop (if isEmpty sel then start sel else end_pos sel) doc)"
proof -
  from edits_cases [of env editor kind justTypes]
  consider "edits r = []"
    | lines where "edits r = [selection_edit sel (join_lines lines)]"
    unfolding r_def sel_def by blast
  then show ?thesis
  proof cases
    case 1
    then show ?thesis by (simp add: document_after_def)
  next
    case (2 lines)
    have len: "start sel \<le> length doc" using assms(3,4) by simp
    have d: "document_after r doc =
              take (start sel) doc @ join_lines lines @
              drop (if isEmpty sel then start sel else end_pos sel) doc"
      using 2 assms(3) by (simp add: document_after_def selection_edit_def min_def max_def)
    have t: "take (start sel) (document_after r doc) = take (start sel) doc"
      using len by (simp add: d)
    have dr: "drop (start sel + length (join_lines lines)) (document_after r doc) =
              drop (if isEmpty sel then start sel else end_pos sel) doc"
      using len by (simp add: d)
    have e: "edits r = [if isEmpty sel then Insert (start sel) (join_lines lines)
                       else Replace (NewRange (start sel) (end_pos sel)) (join_lines lines)]"
      using 2 by (simp add: selection_edit_def)
    from e d t dr show ?thesis by blast
  qed
qed

theorem final_edit_touches_only_selection_witness:
  "start (selection example_editor) \<le> end_pos (selection example_editor) \<and>
   end_pos (selection example_editor) \<le> length ''x: any;'' \<and>
   document_after (pasteAsTypes example_env example_editor ''json'' True) ''x: any;'' =
     ''x:'' @ ''export type TopLevel = number[];'' @ [CHR 0x0A] @ ''// end'' @ ''y;''"
proof -
  have a: "start (selection example_editor) \<le> end_pos (selection example_editor)"
    by (simp add: example_editor_def)
  have b: "end_pos (selection example_editor) \<le> length ''x: any;''"
    by (simp add: example_editor_def)
  have e: "edits (pasteAsTypes example_env example_editor ''json'' True) =
             [Replace (NewRange 2 5)
                (''export type TopLevel = number[];'' @ [CHR 0x0A] @ ''// end'')]"
    by (simp add: example_run edits_def)
  from final_edit_touches_only_selection [OF a b, of example_env "''json''" True] e
  obtain lines where
    "Replace (NewRange 2 5) (''export type TopLevel = number[];'' @ [CHR 0x0A] @ ''// end'') =
       (if isEmpty (selection example_editor)
        then Insert (start (selection example_editor)) (join_lines lines)
        else Replace (NewRange (start (selection example_editor))
               (end_pos (selection example_editor))) (join_lines lines))"
    and "document_after (pasteAsTypes example_env example_editor ''json'' True) ''x: any;'' =
       take (start (selection example_editor)) ''x: any;'' @ join_lines lines @
       drop (if isEmpty (selection example_editor) then start (selection example_editor)
             else end_pos (selection example_editor)) ''x: any;''"
    by auto
  then have "document_after (pasteAsTypes example_env example_editor ''json'' True) ''x: any;'' =
       take 2 ''x: any;'' @
       (''export type TopLevel = number[];'' @ [CHR 0x0A] @ ''// end'') @ drop 5 ''x: any;''"
    by (simp add: example_editor_def)
  with a b show ?thesis by simp
qed

section \<open>TypeScript content is not validated\<close>

text \<open>
  C10. For kind \<^verbatim>\<open>typescript\<close> the run does not depend on \<^verbatim>\<open>JSON.parse\<close>: there is no local
  check of the clipboard content. Once the language is resolved, the clipboard read and a
  name given, the content goes to the engine as it is, as the one source file of a
  TypeScript source. When the engine rejects, the \<^verbatim>\<open>catch\<close> shows the rejection as an error
  message and the run returns without an edit; when the engine throws past the \<^verbatim>\<open>catch\<close>,
  nothing else handles it. For every other kind the check applies: content that
  \<^verbatim>\<open>JSON.parse\<close> rejects never reaches the engine.
\<close>

theorem typescript_not_validated:
  fixes env editor justTypes
  defines "r \<equiv> pasteAsTypes env editor ''typescript'' justTypes"
  shows "(\<forall>p. pasteAsTypes (env\<lparr>JSON_parse := p\<rparr>) editor ''typescript'' justTypes = r)
       \<and> (\<forall>content n. \<not> cancelled (fst (getTargetLanguage env editor)) \<and>
             paste env = Inr content \<and>
             showInputBox env ''Top-level type name?'' = Some n \<longrightarrow>
             map sources (engine_calls r) =
               [[TypeScriptTypeSource [(js_or (Some n) ''TopLevel'' @ ''.ts'', content)]]])
       \<and> (\<forall>call \<in> set (engine_calls r). \<forall>e. quicktype env call = Rejects e \<longrightarrow>
             error_messages r = [e] \<and> edits r = [] \<and> outcome r = Returned)
       \<and> (\<forall>call \<in> set (engine_calls r). quicktype env call = Uncatchable \<longrightarrow>
             error_messages r = [] \<and> edits r = [] \<and> outcome r = Faulted)
       \<and> (\<forall>kind content. kind \<noteq> ''typescript'' \<and> paste env = Inr content \<and>
             \<not> jsonIsValid env content \<longrightarrow>
             engine_calls (pasteAsTypes env editor kind justTypes) = [])"
proof -
  have a: "\<forall>p. pasteAsTypes (env\<lparr>JSON_parse := p\<rparr>) editor ''typescript'' justTypes = r"
    unfolding r_def by (simp add: typescript_ignores_JSON_parse)
  have b: "map sources (engine_calls r) =
               [[TypeScriptTypeSource [(js_or (Some n) ''TopLevel'' @ ''.ts'', content)]]]"
    if "\<not> cancelled (fst (getTargetLanguage env editor))" "paste env = Inr content"
      "showInputBox env ''Top-level type name?'' = Some n" for content n
  proof -
    let ?source = "TypeScriptTypeSource [(js_or (Some n) ''TopLevel'' @ ''.ts'', content)]"
    have s: "js_lookup (source_table (js_or (Some n) ''TopLevel'') content) ''typescript'' =
               Some ?source"
      by (simp add: js_lookup_def source_table_def)
    have k: "''typescript'' = ''typescript'' \<or> jsonIsValid env content" by simp
    have g: "getTargetLanguage env editor =
               (fst (getTargetLanguage env editor), snd (getTargetLanguage env editor))"
      by simp
    note p = path_engine [OF g that(1) that(2) k that(3) s, of justTypes]
    show ?thesis
      unfolding r_def
      by (cases "quicktype env
                   (engine_call editor justTypes (name (fst (getTargetLanguage env editor)))
                      ?source)")
         (simp_all add: p Let_def engine_calls_def ev1_projections engine_call_sel)
  qed
  have c: "\<forall>call \<in> set (engine_calls r). \<forall>e. quicktype env call = Rejects e \<longrightarrow>
             error_messages r = [e] \<and> edits r = [] \<and> outcome r = Returned"
    unfolding r_def
    by (rule pasteAsTypes_cases [of env editor "''typescript''" justTypes])
       (simp_all add: edits_def engine_calls_def error_messages_def ev1_projections)
  have d: "\<forall>call \<in> set (engine_calls r). quicktype env call = Uncatchable \<longrightarrow>
             error_messages r = [] \<and> edits r = [] \<and> outcome r = Faulted"
    unfolding r_def
    by (rule pasteAsTypes_cases [of env editor "''typescript''" justTypes])
       (simp_all add: edits_def engine_calls_def error_messages_def ev1_projections)
  have e: "engine_calls (pasteAsTypes env editor kind justTypes) = []"
    if "kind \<noteq> ''typescript''" "paste env = Inr content" "\<not> jsonIsValid env content"
    for kind content
    using that
    by (rule_tac pasteAsTypes_cases [of env editor kind justTypes])
       (simp_all add: engine_calls_def ev1_projections)
  from a b c d e show ?thesis by blast
qed

theorem typescript_not_validated_witness:
  "\<not> jsonIsValid garbage_env ''interface {'' \<and>
   map sources (engine_calls (pasteAsTypes garbage_env example_editor ''typescript'' False)) =
     [[TypeScriptTypeSource [(''TopLevel.ts'', ''interface {'')]]] \<and>
   error_messages (pasteAsTypes garbage_env example_editor ''typescript'' False) =
     [''syntax error''] \<and>
   edits (pasteAsTypes garbage_env example_editor ''typescript'' False) = []"
proof -
  have v: "\<not> jsonIsValid garbage_env ''interface {''"
    by (simp add: garbage_env_facts)
  have c: "\<not> cancelled (fst (getTargetLanguage garbage_env example_editor))"
    by (simp add: garbage_env_facts)
  have p: "paste garbage_env = Inr ''interface {''"
    by (simp add: garbage_env_facts)
  have i: "showInputBox garbage_env ''Top-level type name?'' = Some []"
    by (simp add: garbage_env_facts)
  note t = typescript_not_validated [of garbage_env example_editor False]
  from t c p i
  have s: "map sources
             (engine_calls (pasteAsTypes garbage_env example_editor ''typescript'' False)) =
           [[TypeScriptTypeSource [(js_or (Some []) ''TopLevel'' @ ''.ts'', ''interface {'')]]]"
    by blast
  have m: "engine_call example_editor False ''TypeScript''
             (TypeScriptTypeSource [(''TopLevel.ts'', ''interface {'')])
           \<in> set (engine_calls (pasteAsTypes garbage_env example_editor ''typescript'' False))"
    by (simp add: garbage_run engine_calls_def)
  have q: "quicktype garbage_env
             (engine_call example_editor False ''TypeScript''
                (TypeScriptTypeSource [(''TopLevel.ts'', ''interface {'')])) =
           Rejects ''syntax error''"
    by (simp add: garbage_env_facts)
  from t m q
  have "error_messages (pasteAsTypes garbage_env example_editor ''typescript'' False) =
          [''syntax error''] \<and>
        edits (pasteAsTypes garbage_env example_editor ''typescript'' False) = []"
    by blast
  with v s show ?thesis by simp
qed

end
